theory Spec2Isabelle
  imports Complex_Main
begin

section \<open>Values, arrays and errors\<close>

text \<open>
  The module \<^verbatim>\<open>monai/metrics/utils.py\<close> works on torch tensors and numpy arrays.
  Both are modelled by one record: the shape and the elements in row-major order.
  An array of the program always satisfies \<open>wf\<close>: it has as many elements as its
  shape says.

  A float is \<open>NaN\<close>, an infinity or a finite number. The special values follow
  IEEE 754; finite arithmetic is exact (rounding, overflow to an infinity and the sign
  of zero are left out).

  Both exceptions of the module are Python's \<^verbatim>\<open>ValueError\<close>; \<^verbatim>\<open>IndexError\<close> is what
  torch and numpy raise for a dimension or a boolean index that does not fit.
\<close>

datatype error = ValueError | IndexError

datatype fval = NaN | PInf | NInf | Fin real

record 'a ndarray =
  shape :: "nat list"
  data :: "'a list"

type_synonym tensor = "fval ndarray"

definition wf :: "'a ndarray \<Rightarrow> bool" where
  "wf a = (length (data a) = prod_list (shape a))"

fun isnan :: "fval \<Rightarrow> bool" where
  "isnan NaN = True"
| "isnan _ = False"

fun fadd :: "fval \<Rightarrow> fval \<Rightarrow> fval" where
  "fadd NaN _ = NaN"
| "fadd _ NaN = NaN"
| "fadd PInf NInf = NaN"
| "fadd NInf PInf = NaN"
| "fadd PInf _ = PInf"
| "fadd _ PInf = PInf"
| "fadd NInf _ = NInf"
| "fadd _ NInf = NInf"
| "fadd (Fin a) (Fin b) = Fin (a + b)"

fun fdiv :: "fval \<Rightarrow> fval \<Rightarrow> fval" where
  "fdiv NaN _ = NaN"
| "fdiv _ NaN = NaN"
| "fdiv (Fin a) (Fin b) =
     (if b = 0 then (if a = 0 then NaN else if 0 < a then PInf else NInf)
      else Fin (a / b))"
| "fdiv (Fin a) _ = Fin 0"
| "fdiv PInf (Fin b) = (if 0 \<le> b then PInf else NInf)"
| "fdiv NInf (Fin b) = (if 0 \<le> b then NInf else PInf)"
| "fdiv _ _ = NaN"

fun fgt :: "fval \<Rightarrow> fval \<Rightarrow> bool" where
  "fgt NaN _ = False"
| "fgt _ NaN = False"
| "fgt PInf PInf = False"
| "fgt PInf _ = True"
| "fgt _ PInf = False"
| "fgt NInf _ = False"
| "fgt _ NInf = True"
| "fgt (Fin a) (Fin b) = (b < a)"

section \<open>Tensor operations used by the reduction\<close>

text \<open>\<^verbatim>\<open>torch.isnan(f)\<close>, \<^verbatim>\<open>~nans\<close>, \<^verbatim>\<open>.float()\<close> and \<^verbatim>\<open>t > 0\<close>, element by element.\<close>

definition torch_isnan :: "tensor \<Rightarrow> bool ndarray" where
  "torch_isnan f = \<lparr>shape = shape f, data = map isnan (data f)\<rparr>"

definition logical_not :: "bool ndarray \<Rightarrow> bool ndarray" where
  "logical_not m = \<lparr>shape = shape m, data = map Not (data m)\<rparr>"

definition to_float :: "bool ndarray \<Rightarrow> tensor" where
  "to_float m = \<lparr>shape = shape m, data = map (\<lambda>b. if b then Fin 1 else Fin 0) (data m)\<rparr>"

definition gt_zero :: "tensor \<Rightarrow> bool ndarray" where
  "gt_zero t = \<lparr>shape = shape t, data = map (\<lambda>x. fgt x (Fin 0)) (data t)\<rparr>"

text \<open>
  \<^verbatim>\<open>f[nans] = 0\<close>: the elements under a true mask entry become 0, in place. The mask
  has the shape of \<open>f\<close>.
\<close>

definition index_put_zero :: "tensor \<Rightarrow> bool ndarray \<Rightarrow> tensor" where
  "index_put_zero f m =
     f\<lparr>data := map (\<lambda>(x, b). if b then Fin 0 else x) (zip (data f) (data m))\<rparr>"

text \<open>\<^verbatim>\<open>a / b\<close> on two tensors of one shape.\<close>

definition tdiv :: "tensor \<Rightarrow> tensor \<Rightarrow> tensor" where
  "tdiv a b = \<lparr>shape = shape a, data = map2 fdiv (data a) (data b)\<rparr>"

text \<open>\<^verbatim>\<open>torch.zeros(1, device=f.device, dtype=torch.float)\<close>: one element, shape \<open>[1]\<close>.\<close>

definition t_zero :: tensor where
  "t_zero = \<lparr>shape = [1], data = [Fin 0]\<rparr>"

text \<open>
  \<^verbatim>\<open>torch.where(cond, x, y)\<close> where \<open>cond\<close> and \<open>x\<close> have one shape and \<open>y\<close> is a
  one-element tensor of shape \<open>[1]\<close>, as at every call of the module. Broadcasting
  against \<open>[1]\<close> keeps the shape of \<open>cond\<close>, except that a 0-dimensional \<open>cond\<close>
  gives a result of shape \<open>[1]\<close>.
\<close>

definition torch_where :: "bool ndarray \<Rightarrow> tensor \<Rightarrow> tensor \<Rightarrow> tensor" where
  "torch_where cond x y =
     \<lparr>shape = (if shape cond = [] then shape y else shape cond),
      data = map (\<lambda>(b, v). if b then v else hd (data y)) (zip (data cond) (data x))\<rparr>"

text \<open>The row-major elements cut into \<open>k\<close> consecutive blocks of \<open>n\<close> elements.\<close>

primrec chunks :: "nat \<Rightarrow> nat \<Rightarrow> 'a list \<Rightarrow> 'a list list" where
  "chunks 0 n xs = []"
| "chunks (Suc k) n xs = take n xs # chunks k n (drop n xs)"

text \<open>The sum of a list of equally long blocks, element by element, from zeros.\<close>

definition add_blocks :: "nat \<Rightarrow> fval list list \<Rightarrow> fval list" where
  "add_blocks n bs = foldl (map2 fadd) (replicate n (Fin 0)) bs"

text \<open>
  \<^verbatim>\<open>t.sum(dim=0)\<close>: the blocks along the first axis are added. torch accepts
  \<^verbatim>\<open>dim=0\<close> on a 0-dimensional tensor and returns its value.
\<close>

definition sum_dim0 :: "tensor \<Rightarrow> tensor" where
  "sum_dim0 t =
     (case shape t of
        [] \<Rightarrow> t
      | b # rest \<Rightarrow>
          \<lparr>shape = rest,
           data = add_blocks (prod_list rest) (chunks b (prod_list rest) (data t))\<rparr>)"

text \<open>
  \<^verbatim>\<open>t.sum(dim=1)\<close>: inside every block of the first axis, the blocks along the
  second axis are added. On a tensor of rank below 2 torch raises \<^verbatim>\<open>IndexError\<close>.
\<close>

definition sum_dim1 :: "tensor \<Rightarrow> error + tensor" where
  "sum_dim1 t =
     (case shape t of
        b # c # rest \<Rightarrow>
          Inr \<lparr>shape = b # rest,
               data = concat (map (\<lambda>row. add_blocks (prod_list rest)
                                            (chunks c (prod_list rest) row))
                                  (chunks b (c * prod_list rest) (data t)))\<rparr>
      | _ \<Rightarrow> Inl IndexError)"

text \<open>\<^verbatim>\<open>t.sum(dim=[0, 1])\<close>: both leading axes are summed.\<close>

definition sum_dim01 :: "tensor \<Rightarrow> error + tensor" where
  "sum_dim01 t = (case sum_dim1 t of Inl e \<Rightarrow> Inl e | Inr s \<Rightarrow> Inr (sum_dim0 s))"

section \<open>The reduction policy\<close>

text \<open>
  Modelled from the spec: the enumeration \<^verbatim>\<open>MetricReduction\<close> of \<^verbatim>\<open>monai.utils\<close> is
  imported by the module and not part of the sources. The specification and the
  docstring of \<^verbatim>\<open>do_metric_reduction\<close> list its seven values: \<^verbatim>\<open>none\<close>, \<^verbatim>\<open>mean\<close>,
  \<^verbatim>\<open>sum\<close>, \<^verbatim>\<open>mean_batch\<close>, \<^verbatim>\<open>sum_batch\<close>, \<^verbatim>\<open>mean_channel\<close>, \<^verbatim>\<open>sum_channel\<close>. The call
  \<^verbatim>\<open>MetricReduction(reduction)\<close> of a Python enumeration returns the member with that
  value and raises \<^verbatim>\<open>ValueError\<close> when there is none.
\<close>

datatype MetricReduction =
  R_NONE | R_MEAN | R_SUM | R_MEAN_BATCH | R_SUM_BATCH | R_MEAN_CHANNEL | R_SUM_CHANNEL

definition MetricReduction_of :: "string \<Rightarrow> error + MetricReduction" where
  "MetricReduction_of s =
     (if s = ''none'' then Inr R_NONE
      else if s = ''mean'' then Inr R_MEAN
      else if s = ''sum'' then Inr R_SUM
      else if s = ''mean_batch'' then Inr R_MEAN_BATCH
      else if s = ''sum_batch'' then Inr R_SUM_BATCH
      else if s = ''mean_channel'' then Inr R_MEAN_CHANNEL
      else if s = ''sum_channel'' then Inr R_SUM_CHANNEL
      else Inl ValueError)"

text \<open>
  The \<^verbatim>\<open>where\<close> of lines 74, 77, 84 and 90: the sum divided by the count where the
  count is positive, \<open>t_zero\<close> elsewhere.
\<close>

definition guarded_average :: "tensor \<Rightarrow> tensor \<Rightarrow> tensor" where
  "guarded_average s not_nans = torch_where (gt_zero not_nans) (tdiv s not_nans) t_zero"

text \<open>
  The zero guard as a property of a reduced tensor and its counts: they have the
  same number of cells, and a cell whose count is 0 holds 0.
\<close>

definition zero_guarded :: "tensor \<Rightarrow> tensor \<Rightarrow> bool" where
  "zero_guarded r not_nans =
     list_all2 (\<lambda>v n. n = Fin 0 \<longrightarrow> v = Fin 0) (data r) (data not_nans)"

text \<open>
  The branches of \<^verbatim>\<open>do_metric_reduction\<close> (lines 71 to 95) on the zeroed tensor and
  the indicator of its defined entries. The enumeration is closed, so the final
  \<^verbatim>\<open>else\<close> of the source (lines 96 to 100) has no case here.
\<close>

fun reduce_branch :: "MetricReduction \<Rightarrow> tensor \<Rightarrow> tensor \<Rightarrow> error + tensor \<times> tensor" where
  "reduce_branch R_MEAN f not_nans =
     (case sum_dim1 not_nans of Inl e \<Rightarrow> Inl e | Inr not_nans1 \<Rightarrow>
       (case sum_dim1 f of Inl e \<Rightarrow> Inl e | Inr s1 \<Rightarrow>
          (let f1 = guarded_average s1 not_nans1;
               not_nans2 = sum_dim0 (to_float (gt_zero not_nans1));
               f2 = guarded_average (sum_dim0 f1) not_nans2
           in Inr (f2, not_nans2))))"
| "reduce_branch R_SUM f not_nans =
     (case sum_dim01 not_nans of Inl e \<Rightarrow> Inl e | Inr not_nans1 \<Rightarrow>
       (case sum_dim01 f of Inl e \<Rightarrow> Inl e | Inr s \<Rightarrow> Inr (s, not_nans1)))"
| "reduce_branch R_MEAN_BATCH f not_nans =
     (let not_nans1 = sum_dim0 not_nans
      in Inr (guarded_average (sum_dim0 f) not_nans1, not_nans1))"
| "reduce_branch R_SUM_BATCH f not_nans = Inr (sum_dim0 f, sum_dim0 not_nans)"
| "reduce_branch R_MEAN_CHANNEL f not_nans =
     (case sum_dim1 not_nans of Inl e \<Rightarrow> Inl e | Inr not_nans1 \<Rightarrow>
       (case sum_dim1 f of Inl e \<Rightarrow> Inl e | Inr s1 \<Rightarrow>
          Inr (guarded_average s1 not_nans1, not_nans1)))"
| "reduce_branch R_SUM_CHANNEL f not_nans =
     (case sum_dim1 not_nans of Inl e \<Rightarrow> Inl e | Inr not_nans1 \<Rightarrow>
       (case sum_dim1 f of Inl e \<Rightarrow> Inl e | Inr s1 \<Rightarrow> Inr (s1, not_nans1)))"
| "reduce_branch R_NONE f not_nans = Inr (f, not_nans)"

text \<open>
  \<^verbatim>\<open>do_metric_reduction(f, reduction)\<close>. The first component is the caller's tensor
  after the call: line 66 has zeroed its NaN entries in place, whatever happens next.
  The second component is the exception raised or the returned pair
  \<^verbatim>\<open>(f, not_nans)\<close>. Line 69 turns the policy into the enumeration after line 66.
\<close>

definition do_metric_reduction ::
  "tensor \<Rightarrow> string \<Rightarrow> tensor \<times> (error + tensor \<times> tensor)" where
  "do_metric_reduction f reduction =
     (let nans = torch_isnan f;
          not_nans = to_float (logical_not nans);
          f0 = index_put_zero f nans
      in (f0, (case MetricReduction_of reduction of
                 Inl e \<Rightarrow> Inl e
               | Inr r \<Rightarrow> reduce_branch r f0 not_nans)))"

text \<open>
  \<^verbatim>\<open>reduce(reduce(scores, p)[0], q)\<close>: the reduction applied to the tensor that a
  first reduction returned.
\<close>

definition reduce_twice :: "tensor \<Rightarrow> string \<Rightarrow> string \<Rightarrow> error + tensor \<times> tensor" where
  "reduce_twice f p q =
     (case snd (do_metric_reduction f p) of
        Inl e \<Rightarrow> Inl e
      | Inr (r, not_nans) \<Rightarrow> snd (do_metric_reduction r q))"

text \<open>
  The single-pass mean that the specification contrasts with the policy \<^verbatim>\<open>mean\<close>,
  written from the specification's words: the sum of all defined entries over both
  leading axes divided by their number, with the same guard for a zero count.
\<close>

definition single_pass_mean :: "tensor \<Rightarrow> error + tensor" where
  "single_pass_mean f =
     (let nans = torch_isnan f;
          not_nans = to_float (logical_not nans);
          f0 = index_put_zero f nans
      in (case sum_dim01 not_nans of Inl e \<Rightarrow> Inl e | Inr n \<Rightarrow>
           (case sum_dim01 f0 of Inl e \<Rightarrow> Inl e | Inr s \<Rightarrow> Inr (guarded_average s n))))"

text \<open>The reduced tensor of a call: the first component of the returned pair.\<close>

definition reduced :: "tensor \<times> (error + tensor \<times> tensor) \<Rightarrow> error + tensor" where
  "reduced res = (case snd res of Inl e \<Rightarrow> Inl e | Inr (r, not_nans) \<Rightarrow> Inr r)"

section \<open>Masks and the numpy operations on them\<close>

text \<open>
  A mask handed to \<^verbatim>\<open>get_mask_edges\<close> is a numpy array of booleans or of labels
  (a torch tensor is converted first, lines 139 to 142).
\<close>

datatype mask = BoolMask "bool ndarray" | LabelMask "int ndarray"

fun mask_shape :: "mask \<Rightarrow> nat list" where
  "mask_shape (BoolMask a) = shape a"
| "mask_shape (LabelMask a) = shape a"

text \<open>\<^verbatim>\<open>a.size\<close>: the number of elements, the product of the shape.\<close>

definition mask_size :: "mask \<Rightarrow> nat" where
  "mask_size m = prod_list (mask_shape m)"

text \<open>Lines 149 to 152: an array that is not boolean is compared with \<open>label_idx\<close>.\<close>

fun binarize :: "mask \<Rightarrow> int \<Rightarrow> bool ndarray" where
  "binarize (BoolMask a) label_idx = a"
| "binarize (LabelMask a) label_idx =
     \<lparr>shape = shape a, data = map (\<lambda>v. v = label_idx) (data a)\<rparr>"

text \<open>\<^verbatim>\<open>a | b\<close> on two arrays of one shape (line 145 has checked it), and \<^verbatim>\<open>~a\<close>.\<close>

definition np_or :: "bool ndarray \<Rightarrow> bool ndarray \<Rightarrow> bool ndarray" where
  "np_or a b = \<lparr>shape = shape a, data = map2 (\<or>) (data a) (data b)\<rparr>"

definition np_not :: "bool ndarray \<Rightarrow> bool ndarray" where
  "np_not a = \<lparr>shape = shape a, data = map Not (data a)\<rparr>"

text \<open>
  \<^verbatim>\<open>a ^ b\<close>. The left operand is the result of the erosion, which scipy returns in
  the shape of its input, so the operands have one shape. For operands of two
  shapes, which numpy broadcasts or rejects, the model has the rejection only.
\<close>

definition np_xor :: "bool ndarray \<Rightarrow> bool ndarray \<Rightarrow> error + bool ndarray" where
  "np_xor a b =
     (if shape a = shape b
      then Inr \<lparr>shape = shape a, data = map2 (\<noteq>) (data a) (data b)\<rparr>
      else Inl ValueError)"

definition np_any :: "bool ndarray \<Rightarrow> bool" where
  "np_any a = (True \<in> set (data a))"

definition zeros_like :: "bool ndarray \<Rightarrow> bool ndarray" where
  "zeros_like a = \<lparr>shape = shape a, data = replicate (prod_list (shape a)) False\<rparr>"

text \<open>\<^verbatim>\<open>np.expand_dims(a, 0)\<close> and \<^verbatim>\<open>np.squeeze(a)\<close>, which drops every axis of length 1.\<close>

definition expand_dims0 :: "'a ndarray \<Rightarrow> 'a ndarray" where
  "expand_dims0 a = a\<lparr>shape := 1 # shape a\<rparr>"

definition np_squeeze :: "'a ndarray \<Rightarrow> 'a ndarray" where
  "np_squeeze a = a\<lparr>shape := filter (\<lambda>d. d \<noteq> 1) (shape a)\<rparr>"

section \<open>Boundary extraction\<close>

text \<open>Lines 164 and 165: the erosion of a mask, xor the mask.\<close>

definition edges_of ::
  "(bool ndarray \<Rightarrow> bool ndarray) \<Rightarrow> bool ndarray \<Rightarrow> bool ndarray
     \<Rightarrow> error + bool ndarray \<times> bool ndarray" where
  "edges_of binary_erosion seg_pred seg_gt =
     (case np_xor (binary_erosion seg_pred) seg_pred of
        Inl e \<Rightarrow> Inl e
      | Inr edges_pred \<Rightarrow>
          (case np_xor (binary_erosion seg_gt) seg_gt of
             Inl e \<Rightarrow> Inl e
           | Inr edges_gt \<Rightarrow> Inr (edges_pred, edges_gt)))"

text \<open>
  \<^verbatim>\<open>get_mask_edges(seg_pred, seg_gt, label_idx, crop)\<close>. The three functions that
  the module imports (scipy's \<^verbatim>\<open>binary_erosion\<close>, and \<^verbatim>\<open>generate_spatial_bounding_box\<close>
  and \<^verbatim>\<open>SpatialCrop\<close> of \<^verbatim>\<open>monai.transforms\<close>) are not part of the sources and are
  parameters.
\<close>

definition get_mask_edges ::
  "(bool ndarray \<Rightarrow> bool ndarray) \<Rightarrow> (bool ndarray \<Rightarrow> nat list \<times> nat list)
     \<Rightarrow> (nat list \<Rightarrow> nat list \<Rightarrow> bool ndarray \<Rightarrow> bool ndarray)
     \<Rightarrow> mask \<Rightarrow> mask \<Rightarrow> int \<Rightarrow> bool \<Rightarrow> error + bool ndarray \<times> bool ndarray" where
  "get_mask_edges binary_erosion generate_spatial_bounding_box SpatialCrop
       seg_pred seg_gt label_idx crop =
     (if mask_size seg_pred = 0 \<or> mask_shape seg_pred \<noteq> mask_shape seg_gt
      then Inl ValueError
      else
        (let seg_pred1 = binarize seg_pred label_idx;
             seg_gt1 = binarize seg_gt label_idx
         in if crop
            then
              (if \<not> np_any (np_or seg_pred1 seg_gt1)
               then Inr (zeros_like seg_pred1, zeros_like seg_gt1)
               else
                 (let seg_pred2 = expand_dims0 seg_pred1;
                      seg_gt2 = expand_dims0 seg_gt1;
                      (box_start, box_end) =
                        generate_spatial_bounding_box (np_or seg_pred2 seg_gt2);
                      cropper = SpatialCrop box_start box_end
                  in edges_of binary_erosion (np_squeeze (cropper seg_pred2))
                                             (np_squeeze (cropper seg_gt2))))
            else edges_of binary_erosion seg_pred1 seg_gt1))"

text \<open>
  A boolean array \<open>a\<close> lies inside \<open>b\<close>: one shape, and every true voxel of \<open>a\<close> is
  true in \<open>b\<close>.
\<close>

definition inside :: "bool ndarray \<Rightarrow> bool ndarray \<Rightarrow> bool" where
  "inside a b = (shape a = shape b \<and> list_all2 (\<lambda>x y. x \<longrightarrow> y) (data a) (data b))"

section \<open>Surface distance\<close>

text \<open>\<^verbatim>\<open>np.array([])\<close>: the empty one-dimensional array.\<close>

definition np_array_empty :: tensor where
  "np_array_empty = \<lparr>shape = [0], data = []\<rparr>"

text \<open>\<^verbatim>\<open>np.inf * np.ones_like(a)\<close>: infinity in every cell of the shape of \<open>a\<close>.\<close>

definition inf_ones_like :: "bool ndarray \<Rightarrow> tensor" where
  "inf_ones_like a = \<lparr>shape = shape a, data = replicate (prod_list (shape a)) PInf\<rparr>"

text \<open>
  \<^verbatim>\<open>dis[m]\<close> with a boolean array \<open>m\<close>: the shape of \<open>m\<close> has to be the leading part
  of the shape of \<open>dis\<close> (otherwise numpy raises \<^verbatim>\<open>IndexError\<close>); the blocks of \<open>dis\<close>
  under the true entries of \<open>m\<close> are returned in row-major order.
\<close>

definition np_bool_index :: "'a ndarray \<Rightarrow> bool ndarray \<Rightarrow> error + 'a ndarray" where
  "np_bool_index dis m =
     (if length (shape m) \<le> length (shape dis)
         \<and> take (length (shape m)) (shape dis) = shape m
      then
        (let rest = drop (length (shape m)) (shape dis);
             blocks = chunks (prod_list (shape m)) (prod_list rest) (data dis);
             sel = map fst (filter snd (zip blocks (data m)))
         in Inr \<lparr>shape = length sel # rest, data = concat sel\<rparr>)
      else Inl IndexError)"

text \<open>
  \<^verbatim>\<open>get_surface_distance(edges_pred, edges_gt, label_idx, crop, distance_metric)\<close>.
  scipy's \<^verbatim>\<open>distance_transform_edt\<close> and \<^verbatim>\<open>distance_transform_cdt\<close> are not part of
  the sources and are parameters. \<open>label_idx\<close> and \<open>crop\<close> are parameters of the
  source function as well.
\<close>

definition get_surface_distance ::
  "(bool ndarray \<Rightarrow> tensor) \<Rightarrow> (bool ndarray \<Rightarrow> string \<Rightarrow> tensor)
     \<Rightarrow> bool ndarray \<Rightarrow> bool ndarray \<Rightarrow> int \<Rightarrow> bool \<Rightarrow> string \<Rightarrow> error + tensor" where
  "get_surface_distance distance_transform_edt distance_transform_cdt
       edges_pred edges_gt label_idx crop distance_metric =
     (if \<not> np_any edges_pred then Inr np_array_empty
      else
        (case
           (if \<not> np_any edges_gt then Inr (inf_ones_like edges_gt)
            else if distance_metric = ''euclidean''
              then Inr (distance_transform_edt (np_not edges_gt))
            else if distance_metric = ''chessboard'' \<or> distance_metric = ''taxicab''
              then Inr (distance_transform_cdt (np_not edges_gt) distance_metric)
            else Inl ValueError)
         of Inl e \<Rightarrow> Inl e
          | Inr dis \<Rightarrow> np_bool_index dis edges_pred))"

text \<open>The number of true voxels of a mask.\<close>

definition count_true :: "bool ndarray \<Rightarrow> nat" where
  "count_true a = length (filter id (data a))"

section \<open>One-dimensional instances of the imported kernels\<close>

text \<open>
  Modelled from the spec: \<^verbatim>\<open>binary_erosion\<close> (scipy) is not part of the sources. One
  step of binary erosion on a one-dimensional mask: a voxel stays when it and both
  its neighbours are foreground, and outside the array is background.
\<close>

fun erode_from :: "bool \<Rightarrow> bool list \<Rightarrow> bool list" where
  "erode_from prev [] = []"
| "erode_from prev [x] = [False]"
| "erode_from prev (x # y # ys) = (prev \<and> x \<and> y) # erode_from x (y # ys)"

definition binary_erosion_1d :: "bool ndarray \<Rightarrow> bool ndarray" where
  "binary_erosion_1d a = \<lparr>shape = shape a, data = erode_from False (data a)\<rparr>"

text \<open>
  Modelled from the spec: the bounding-box routine and the cropping routine of
  \<^verbatim>\<open>monai.transforms\<close> are not part of the sources. For a mask of shape \<open>[1, n]\<close>
  with a true voxel: the box from the first true voxel (inclusive) to the last
  (exclusive end), and the sub-array inside the box.
\<close>

definition bounding_box_1d :: "bool ndarray \<Rightarrow> nat list \<times> nat list" where
  "bounding_box_1d a =
     (case filter (\<lambda>i. data a ! i) [0..<length (data a)] of
        [] \<Rightarrow> ([0], [0])
      | i # is \<Rightarrow> ([i], [Suc (last (i # is))]))"

definition SpatialCrop_1d :: "nat list \<Rightarrow> nat list \<Rightarrow> bool ndarray \<Rightarrow> bool ndarray" where
  "SpatialCrop_1d roi_start roi_end a =
     (case (roi_start, roi_end) of
        ([s], [e]) \<Rightarrow> \<lparr>shape = [1, e - s], data = take (e - s) (drop s (data a))\<rparr>
      | _ \<Rightarrow> a)"

text \<open>
  Modelled from the spec: the distance transforms of scipy are not part of the
  sources. On a one-dimensional array the three metrics agree: every cell gets its
  distance to the nearest false cell of the input (0 on a false cell). Where the
  input has no false cell the instance answers infinity; \<^verbatim>\<open>get_surface_distance\<close>
  calls the transform only on an input that has one.
\<close>

definition nearest_false :: "bool list \<Rightarrow> nat \<Rightarrow> fval" where
  "nearest_false xs i =
     (case map (\<lambda>j. if j \<le> i then i - j else j - i)
               (filter (\<lambda>j. \<not> xs ! j) [0..<length xs]) of
        [] \<Rightarrow> PInf
      | d # ds \<Rightarrow> Fin (real (fold min ds d)))"

definition distance_transform_1d :: "bool ndarray \<Rightarrow> tensor" where
  "distance_transform_1d a =
     \<lparr>shape = shape a, data = map (nearest_false (data a)) [0..<length (data a)]\<rparr>"

definition distance_transform_cdt_1d :: "bool ndarray \<Rightarrow> string \<Rightarrow> tensor" where
  "distance_transform_cdt_1d a metric = distance_transform_1d a"

section \<open>The reduction\<close>

subsection \<open>The NaN entries are zeroed first\<close>

lemma zip_map_same: "zip xs (map g xs) = map (\<lambda>x. (x, g x)) xs"
  by (induction xs) simp_all

lemma index_put_zero_isnan:
  "index_put_zero f (torch_isnan f) = f\<lparr>data := map (\<lambda>x. if isnan x then Fin 0 else x) (data f)\<rparr>"
  by (simp add: index_put_zero_def torch_isnan_def zip_map_same)

lemma MetricReduction_of_invalid:
  "reduction \<notin> {''none'', ''mean'', ''sum'', ''mean_batch'', ''sum_batch'', ''mean_channel'', ''sum_channel''}
     \<Longrightarrow> MetricReduction_of reduction = Inl ValueError"
  by (simp add: MetricReduction_of_def)

lemma do_metric_reduction_none:
  "do_metric_reduction f ''none'' =
     (\<lparr>shape = shape f, data = map (\<lambda>x. if isnan x then Fin 0 else x) (data f)\<rparr>,
      Inr (\<lparr>shape = shape f, data = map (\<lambda>x. if isnan x then Fin 0 else x) (data f)\<rparr>,
           \<lparr>shape = shape f, data = map (\<lambda>x. if isnan x then Fin 0 else Fin 1) (data f)\<rparr>))"
  by (simp add: do_metric_reduction_def index_put_zero_isnan Let_def MetricReduction_of_def)
    (simp add: to_float_def logical_not_def torch_isnan_def comp_def)

lemma isnan_iff: "isnan x = (x = NaN)"
  by (cases x) simp_all

subsection \<open>A worked example\<close>

text \<open>
  C1. On the 2x2 tensor \<open>[[1, NaN], [3, 4]]\<close> the policy \<^verbatim>\<open>mean\<close> returns the single
  value 2.25 (the row means are 1 and 3.5) and the count 2: the batch rows that
  had a defined entry, not the 3 defined entries. The value comes back as a
  one-element tensor, the count as a 0-dimensional one.
\<close>

theorem mean_example_2x2:
  "snd (do_metric_reduction \<lparr>shape = [2, 2], data = [Fin 1, NaN, Fin 3, Fin 4]\<rparr> ''mean'')
     = Inr (\<lparr>shape = [1], data = [Fin (9 / 4)]\<rparr>, \<lparr>shape = [], data = [Fin 2]\<rparr>)"
  by code_simp

subsection \<open>The zero guard of the averages\<close>

lemma length_chunks: "length (chunks k n xs) = k"
  by (induction k arbitrary: xs) simp_all

lemma length_chunk_elems:
  "length xs = k * n \<Longrightarrow> c \<in> set (chunks k n xs) \<Longrightarrow> length c = n"
proof (induction k arbitrary: xs)
  case 0
  then show ?case by simp
next
  case (Suc k)
  from Suc.prems(1) have len: "length (drop n xs) = k * n" by simp
  from Suc.prems(2) have "c = take n xs \<or> c \<in> set (chunks k n (drop n xs))" by simp
  then show ?case
  proof
    assume "c = take n xs"
    with Suc.prems(1) show ?thesis by simp
  next
    assume "c \<in> set (chunks k n (drop n xs))"
    with len show ?thesis by (rule Suc.IH)
  qed
qed

lemma set_chunk_elems: "c \<in> set (chunks k n xs) \<Longrightarrow> set c \<subseteq> set xs"
proof (induction k arbitrary: xs)
  case 0
  then show ?case by simp
next
  case (Suc k)
  from Suc.prems have "c = take n xs \<or> c \<in> set (chunks k n (drop n xs))" by simp
  then show ?case
  proof
    assume "c = take n xs"
    then show ?thesis by (simp add: set_take_subset)
  next
    assume "c \<in> set (chunks k n (drop n xs))"
    then have "set c \<subseteq> set (drop n xs)" by (rule Suc.IH)
    also have "\<dots> \<subseteq> set xs" by (rule set_drop_subset)
    finally show ?thesis .
  qed
qed

lemma length_foldl_map2:
  "length z = n \<Longrightarrow> \<forall>b\<in>set bs. length b = n \<Longrightarrow> length (foldl (map2 fadd) z bs) = n"
  by (induction bs arbitrary: z) simp_all

lemma length_add_blocks: "\<forall>b\<in>set bs. length b = n \<Longrightarrow> length (add_blocks n bs) = n"
  by (simp add: add_blocks_def length_foldl_map2)

lemma zeros_foldl_map2:
  "set z \<subseteq> {Fin 0} \<Longrightarrow> \<forall>b\<in>set bs. set b \<subseteq> {Fin 0}
     \<Longrightarrow> set (foldl (map2 fadd) z bs) \<subseteq> {Fin 0}"
proof (induction bs arbitrary: z)
  case Nil
  then show ?case by simp
next
  case (Cons b bs)
  have "set (map2 fadd z b) \<subseteq> {Fin 0}"
  proof
    fix v assume "v \<in> set (map2 fadd z b)"
    then obtain x y where "v = fadd x y" "x \<in> set z" "y \<in> set b"
      by (auto dest: set_zip_leftD set_zip_rightD)
    moreover from \<open>x \<in> set z\<close> Cons.prems(1) have "x = Fin 0" by blast
    moreover from \<open>y \<in> set b\<close> Cons.prems(2) have "y = Fin 0" by auto
    ultimately show "v \<in> {Fin 0}" by simp
  qed
  with Cons show ?case by simp
qed

lemma zeros_add_blocks:
  "\<forall>b\<in>set bs. set b \<subseteq> {Fin 0} \<Longrightarrow> set (add_blocks n bs) \<subseteq> {Fin 0}"
  unfolding add_blocks_def by (rule zeros_foldl_map2) auto

lemma all_zero_replicate: "length xs = n \<Longrightarrow> set xs \<subseteq> {v} \<Longrightarrow> xs = replicate n v"
  by (induction xs arbitrary: n) auto

text \<open>Shapes and lengths of the sums.\<close>

lemma sum_dim0_Cons:
  assumes "shape t = b # rest" and "wf t"
  shows "shape (sum_dim0 t) = rest" and "length (data (sum_dim0 t)) = prod_list rest"
proof -
  show "shape (sum_dim0 t) = rest" using assms(1) by (simp add: sum_dim0_def)
  have "\<forall>c\<in>set (chunks b (prod_list rest) (data t)). length c = prod_list rest"
    using assms by (auto simp: wf_def intro: length_chunk_elems)
  then show "length (data (sum_dim0 t)) = prod_list rest"
    using assms(1) by (simp add: sum_dim0_def length_add_blocks)
qed

lemma length_concat_const:
  "\<forall>r\<in>set rows. length (g r) = n \<Longrightarrow> length (concat (map g rows)) = length rows * n"
  by (induction rows) simp_all

lemma sum_dim1_Cons:
  assumes "shape t = b # c # rest" and "wf t"
  shows "\<exists>s. sum_dim1 t = Inr s \<and> shape s = b # rest
             \<and> length (data s) = b * prod_list rest"
proof -
  let ?g = "\<lambda>row. add_blocks (prod_list rest) (chunks c (prod_list rest) row)"
  let ?rows = "chunks b (c * prod_list rest) (data t)"
  have "\<forall>r\<in>set ?rows. length (?g r) = prod_list rest"
  proof
    fix r assume "r \<in> set ?rows"
    then have "length r = c * prod_list rest"
      using assms by (auto simp: wf_def intro: length_chunk_elems)
    then have "\<forall>x\<in>set (chunks c (prod_list rest) r). length x = prod_list rest"
      by (auto intro: length_chunk_elems)
    then show "length (?g r) = prod_list rest" by (rule length_add_blocks)
  qed
  then have "length (concat (map ?g ?rows)) = length ?rows * prod_list rest"
    by (rule length_concat_const)
  then have "length (concat (map ?g ?rows)) = b * prod_list rest"
    by (simp only: length_chunks)
  then show ?thesis using assms(1) by (simp add: sum_dim1_def)
qed

text \<open>The guard of the averages.\<close>

lemma guarded_average_cells:
  assumes "length (data s) = length (data n)"
  shows "length (data (guarded_average s n)) = length (data n)"
    and "i < length (data n) \<Longrightarrow> data n ! i = Fin 0 \<Longrightarrow> data (guarded_average s n) ! i = Fin 0"
  using assms
  by (simp_all add: guarded_average_def torch_where_def tdiv_def gt_zero_def t_zero_def)

lemma guarded_average_shape:
  "shape n \<noteq> [] \<Longrightarrow> shape (guarded_average s n) = shape n"
  by (simp add: guarded_average_def torch_where_def gt_zero_def)

lemma guarded_average_all_zero:
  assumes "length (data s) = length (data n)" and "set (data n) \<subseteq> {Fin 0}"
  shows "set (data (guarded_average s n)) \<subseteq> {Fin 0}"
proof
  fix v assume "v \<in> set (data (guarded_average s n))"
  then obtain i where i: "i < length (data (guarded_average s n))"
      and v: "v = data (guarded_average s n) ! i"
    by (auto simp: in_set_conv_nth)
  from i have i': "i < length (data n)" by (simp add: guarded_average_cells(1) [OF assms(1)])
  with assms(2) have "data n ! i = Fin 0" using nth_mem by blast
  with i' v show "v \<in> {Fin 0}" by (simp add: guarded_average_cells(2) [OF assms(1)])
qed


lemma guarded_average_zero_guarded:
  assumes "length (data s) = length (data n)"
  shows "zero_guarded (guarded_average s n) n"
  unfolding zero_guarded_def list_all2_conv_all_nth
  using guarded_average_cells [OF assms] by simp

text \<open>The zeroed tensor and the indicator, as lines 64 to 66 leave them.\<close>

lemma zeroed_facts:
  "shape (index_put_zero f (torch_isnan f)) = shape f"
  "wf f \<Longrightarrow> wf (index_put_zero f (torch_isnan f))"
  by (simp_all add: index_put_zero_isnan wf_def)

lemma indicator_facts:
  "shape (to_float (logical_not (torch_isnan f))) = shape f"
  "wf f \<Longrightarrow> wf (to_float (logical_not (torch_isnan f)))"
  "set (data f) \<subseteq> {NaN} \<Longrightarrow> set (data (to_float (logical_not (torch_isnan f)))) \<subseteq> {Fin 0}"
  by (auto simp: to_float_def logical_not_def torch_isnan_def wf_def)

lemma sum_dim0_all_zero:
  assumes "set (data t) \<subseteq> {Fin 0}" and "shape t = b # rest"
  shows "set (data (sum_dim0 t)) \<subseteq> {Fin 0}"
proof -
  have "\<forall>c\<in>set (chunks b (prod_list rest) (data t)). set c \<subseteq> {Fin 0}"
    using assms(1) set_chunk_elems by blast
  then show ?thesis using assms(2) by (simp add: sum_dim0_def zeros_add_blocks)
qed

lemma mean_batch_zero_guarded:
  assumes "wf f" and "shape f = b # c # rest"
  shows "\<exists>r not_nans. snd (do_metric_reduction f ''mean_batch'') = Inr (r, not_nans)
           \<and> zero_guarded r not_nans
           \<and> (set (data f) \<subseteq> {NaN} \<longrightarrow>
                r = \<lparr>shape = c # rest, data = replicate (prod_list (c # rest)) (Fin 0)\<rparr>
                \<and> not_nans = r)"
proof -
  let ?f0 = "index_put_zero f (torch_isnan f)"
  let ?n = "to_float (logical_not (torch_isnan f))"
  let ?n1 = "sum_dim0 ?n"
  let ?r = "guarded_average (sum_dim0 ?f0) ?n1"
  have res: "snd (do_metric_reduction f ''mean_batch'') = Inr (?r, ?n1)"
    by (simp add: do_metric_reduction_def MetricReduction_of_def Let_def)
  have n1: "shape ?n1 = c # rest" "length (data ?n1) = prod_list (c # rest)"
    using sum_dim0_Cons [of ?n b "c # rest"] assms by (simp_all add: indicator_facts)
  have s: "length (data (sum_dim0 ?f0)) = prod_list (c # rest)"
    using sum_dim0_Cons [of ?f0 b "c # rest"] assms by (simp add: zeroed_facts)
  have len: "length (data (sum_dim0 ?f0)) = length (data ?n1)"
    using n1(2) s by simp
  have zg: "zero_guarded ?r ?n1"
    using len by (rule guarded_average_zero_guarded)
  have "?r = \<lparr>shape = c # rest, data = replicate (prod_list (c # rest)) (Fin 0)\<rparr> \<and> ?n1 = ?r"
    if nan: "set (data f) \<subseteq> {NaN}"
  proof -
    have "shape ?n = b # c # rest"
      using assms(2) by (simp add: indicator_facts)
    with indicator_facts(3) [OF nan] have "set (data ?n1) \<subseteq> {Fin 0}"
      by (rule sum_dim0_all_zero)
    then have dn: "data ?n1 = replicate (prod_list (c # rest)) (Fin 0)"
      using n1(2) by (simp add: all_zero_replicate)
    have "set (data ?r) \<subseteq> {Fin 0}"
      using len \<open>set (data ?n1) \<subseteq> {Fin 0}\<close> by (rule guarded_average_all_zero)
    moreover have "length (data ?r) = prod_list (c # rest)"
      using guarded_average_cells(1) [OF len] n1(2) by simp
    ultimately have dr: "data ?r = replicate (prod_list (c # rest)) (Fin 0)"
      by (simp add: all_zero_replicate)
    have sr: "shape ?r = c # rest"
      using guarded_average_shape [of ?n1 "sum_dim0 ?f0"] n1(1) by simp
    from dn dr sr n1(1) show ?thesis by (simp add: ndarray.equality)
  qed
  with res zg show ?thesis by blast
qed

lemma mean_channel_zero_guarded:
  assumes "wf f" and "shape f = b # c # rest"
  shows "\<exists>r not_nans. snd (do_metric_reduction f ''mean_channel'') = Inr (r, not_nans)
           \<and> zero_guarded r not_nans"
proof -
  let ?f0 = "index_put_zero f (torch_isnan f)"
  let ?n = "to_float (logical_not (torch_isnan f))"
  obtain n1 where n1: "sum_dim1 ?n = Inr n1" "length (data n1) = b * prod_list rest"
    using sum_dim1_Cons [of ?n b c rest] assms by (auto simp: indicator_facts)
  obtain s1 where s1: "sum_dim1 ?f0 = Inr s1" "length (data s1) = b * prod_list rest"
    using sum_dim1_Cons [of ?f0 b c rest] assms by (auto simp: zeroed_facts)
  have "snd (do_metric_reduction f ''mean_channel'') = Inr (guarded_average s1 n1, n1)"
    using n1(1) s1(1) by (simp add: do_metric_reduction_def MetricReduction_of_def Let_def)
  moreover have "zero_guarded (guarded_average s1 n1) n1"
    using n1(2) s1(2) by (simp add: guarded_average_zero_guarded)
  ultimately show ?thesis by blast
qed

lemma mean_zero_guarded:
  assumes "wf f" and "shape f = b # c # rest"
  shows "\<exists>r not_nans. snd (do_metric_reduction f ''mean'') = Inr (r, not_nans)
           \<and> zero_guarded r not_nans"
proof -
  let ?f0 = "index_put_zero f (torch_isnan f)"
  let ?n = "to_float (logical_not (torch_isnan f))"
  obtain n1 where n1: "sum_dim1 ?n = Inr n1" "shape n1 = b # rest"
      "length (data n1) = b * prod_list rest"
    using sum_dim1_Cons [of ?n b c rest] assms by (auto simp: indicator_facts)
  obtain s1 where s1: "sum_dim1 ?f0 = Inr s1" "length (data s1) = b * prod_list rest"
    using sum_dim1_Cons [of ?f0 b c rest] assms by (auto simp: zeroed_facts)
  let ?f1 = "guarded_average s1 n1"
  let ?n2 = "sum_dim0 (to_float (gt_zero n1))"
  let ?f2 = "guarded_average (sum_dim0 ?f1) ?n2"
  have res: "snd (do_metric_reduction f ''mean'') = Inr (?f2, ?n2)"
    using n1(1) s1(1) by (simp add: do_metric_reduction_def MetricReduction_of_def Let_def)
  have len1: "length (data s1) = length (data n1)" using n1(3) s1(2) by simp
  have f1: "shape ?f1 = b # rest" "wf ?f1"
    using guarded_average_shape [of n1 s1] guarded_average_cells(1) [OF len1] n1(2,3)
    by (simp_all add: wf_def)
  have g1: "shape (to_float (gt_zero n1)) = b # rest" "wf (to_float (gt_zero n1))"
    using n1(2,3) by (simp_all add: to_float_def gt_zero_def wf_def)
  have "length (data (sum_dim0 ?f1)) = prod_list rest"
    using f1 by (rule sum_dim0_Cons(2))
  moreover have "length (data ?n2) = prod_list rest"
    using g1 by (rule sum_dim0_Cons(2))
  ultimately have "zero_guarded ?f2 ?n2"
    by (simp add: guarded_average_zero_guarded)
  with res show ?thesis by blast
qed

text \<open>
  C2. For every tensor of rank at least 2 and each of the policies \<^verbatim>\<open>mean\<close>,
  \<^verbatim>\<open>mean_batch\<close> and \<^verbatim>\<open>mean_channel\<close>, the call returns, and every cell of the result
  whose count of defined entries is 0 holds 0. In particular a tensor of NaN only
  reduces under \<^verbatim>\<open>mean_batch\<close> to zeros, with counts that are all zero.
\<close>

theorem mean_policies_zero_guard:
  assumes "wf f" and "2 \<le> length (shape f)"
      and "reduction \<in> {''mean'', ''mean_batch'', ''mean_channel''}"
  shows "\<exists>r not_nans.
           snd (do_metric_reduction f reduction) = Inr (r, not_nans)
         \<and> zero_guarded r not_nans
         \<and> (reduction = ''mean_batch'' \<and> set (data f) \<subseteq> {NaN} \<longrightarrow>
              r = \<lparr>shape = tl (shape f),
                   data = replicate (prod_list (tl (shape f))) (Fin 0)\<rparr>
              \<and> not_nans = r)"
proof -
  from assms(2) obtain b c rest where sh: "shape f = b # c # rest"
    by (cases "shape f"; cases "tl (shape f)") auto
  from assms(3) consider "reduction = ''mean''" | "reduction = ''mean_batch''"
    | "reduction = ''mean_channel''" by blast
  then show ?thesis
  proof cases
    case 1
    then show ?thesis using mean_zero_guarded [OF assms(1) sh] by auto
  next
    case 2
    then show ?thesis using mean_batch_zero_guarded [OF assms(1) sh] sh by auto
  next
    case 3
    then show ?thesis using mean_channel_zero_guarded [OF assms(1) sh] by auto
  qed
qed

theorem mean_policies_zero_guard_witness:
  "wf \<lparr>shape = [2, 2], data = [NaN, NaN, NaN, NaN]\<rparr>
   \<and> 2 \<le> length (shape \<lparr>shape = [2, 2], data = [NaN, NaN, NaN, NaN]\<rparr>)
   \<and> ''mean_batch'' \<in> {''mean'', ''mean_batch'', ''mean_channel''}
   \<and> set (data \<lparr>shape = [2, 2], data = [NaN, NaN, NaN, NaN]\<rparr>) \<subseteq> {NaN}
   \<and> snd (do_metric_reduction \<lparr>shape = [2, 2], data = [NaN, NaN, NaN, NaN]\<rparr> ''mean_batch'')
       = Inr (\<lparr>shape = [2], data = [Fin 0, Fin 0]\<rparr>, \<lparr>shape = [2], data = [Fin 0, Fin 0]\<rparr>)
   \<and> zero_guarded \<lparr>shape = [2], data = [Fin 0, Fin 0]\<rparr> \<lparr>shape = [2], data = [Fin 0, Fin 0]\<rparr>"
  using mean_policies_zero_guard
          [of "\<lparr>shape = [2, 2], data = [NaN, NaN, NaN, NaN]\<rparr>" "''mean_batch''"]
  by (auto simp: wf_def numeral_2_eq_2 zero_guarded_def)

subsection \<open>An unknown policy\<close>

text \<open>
  C3. For every tensor and every policy string that is not one of the seven names,
  \<^verbatim>\<open>do_metric_reduction\<close> raises \<^verbatim>\<open>ValueError\<close>, and the caller's tensor has by then
  its NaN entries replaced by 0 and its shape unchanged.
\<close>

theorem unsupported_reduction_raises:
  assumes "reduction \<notin> {''none'', ''mean'', ''sum'', ''mean_batch'', ''sum_batch'',
                          ''mean_channel'', ''sum_channel''}"
  shows "do_metric_reduction f reduction =
           (\<lparr>shape = shape f, data = map (\<lambda>x. if isnan x then Fin 0 else x) (data f)\<rparr>,
            Inl ValueError)"
  using MetricReduction_of_invalid [OF assms]
  by (simp add: do_metric_reduction_def index_put_zero_isnan Let_def)

theorem unsupported_reduction_raises_witness:
  "''bogus'' \<notin> {''none'', ''mean'', ''sum'', ''mean_batch'', ''sum_batch'',
                  ''mean_channel'', ''sum_channel''}
   \<and> do_metric_reduction \<lparr>shape = [2, 2], data = [Fin 1, NaN, Fin 3, Fin 4]\<rparr> ''bogus''
       = (\<lparr>shape = [2, 2], data = [Fin 1, Fin 0, Fin 3, Fin 4]\<rparr>, Inl ValueError)"
  using unsupported_reduction_raises
          [of "''bogus''" "\<lparr>shape = [2, 2], data = [Fin 1, NaN, Fin 3, Fin 4]\<rparr>"]
  by simp

subsection \<open>Two stages against one pass\<close>

text \<open>
  C4. There is a tensor on which the policy \<^verbatim>\<open>mean\<close> (the average over the classes
  of every batch row, then the average of the rows) and the single-pass mean over
  both axes differ: on \<open>[[1, NaN], [3, 4]]\<close> the first gives 9/4, the second 8/3.
\<close>

theorem two_stage_differs_from_single_pass:
  "\<exists>f. wf f \<and> shape f = [2, 2]
       \<and> reduced (do_metric_reduction f ''mean'') = Inr \<lparr>shape = [1], data = [Fin (9 / 4)]\<rparr>
       \<and> single_pass_mean f = Inr \<lparr>shape = [1], data = [Fin (8 / 3)]\<rparr>
       \<and> reduced (do_metric_reduction f ''mean'') \<noteq> single_pass_mean f"
proof (intro exI conjI)
  let ?f = "\<lparr>shape = [2, 2], data = [Fin 1, NaN, Fin 3, Fin 4]\<rparr>"
  show "wf ?f" by (simp add: wf_def)
  show "shape ?f = [2, 2]" by simp
  show a: "reduced (do_metric_reduction ?f ''mean'') = Inr \<lparr>shape = [1], data = [Fin (9 / 4)]\<rparr>"
    by code_simp
  show b: "single_pass_mean ?f = Inr \<lparr>shape = [1], data = [Fin (8 / 3)]\<rparr>"
    by code_simp
  show "reduced (do_metric_reduction ?f ''mean'') \<noteq> single_pass_mean ?f"
    unfolding a b by simp
qed

subsection \<open>The policy none, twice\<close>

text \<open>
  C5, as stated: the second application of \<^verbatim>\<open>none\<close> returns the same pair as the
  first. It fails on the 1x1 tensor \<open>[[NaN]]\<close>: the first call returns the indicator
  0 for the entry, the second call sees the zeroed entry and returns 1.
\<close>

theorem none_twice_counterexample:
  "reduce_twice \<lparr>shape = [1, 1], data = [NaN]\<rparr> ''none'' ''none''
     \<noteq> snd (do_metric_reduction \<lparr>shape = [1, 1], data = [NaN]\<rparr> ''none'')"
  by code_simp

text \<open>
  C5, amended: for every tensor, the second application of \<^verbatim>\<open>none\<close> returns the
  same reduced tensor as the first; its indicator is 1 everywhere, so the two
  returned pairs are equal exactly when the tensor has no NaN entry.
\<close>

theorem none_twice_reduced_tensor:
  "\<exists>r not_nans not_nans'.
      snd (do_metric_reduction f ''none'') = Inr (r, not_nans)
    \<and> reduce_twice f ''none'' ''none'' = Inr (r, not_nans')
    \<and> not_nans' = \<lparr>shape = shape f, data = map (\<lambda>x. Fin 1) (data f)\<rparr>
    \<and> (not_nans' = not_nans) = (NaN \<notin> set (data f))"
  by (simp add: reduce_twice_def do_metric_reduction_none comp_def isnan_iff) blast

section \<open>Boundary extraction: properties\<close>

lemma shape_binarize: "shape (binarize m label_idx) = mask_shape m"
  by (cases m) simp_all

text \<open>
  The guard of line 145: an array without elements is rejected, whatever the rest.
\<close>

lemma zero_size_rejected:
  "mask_size seg_pred = 0 \<Longrightarrow>
     get_mask_edges binary_erosion generate_spatial_bounding_box SpatialCrop
         seg_pred seg_gt label_idx crop = Inl ValueError"
  by (simp add: get_mask_edges_def)

text \<open>
  C6. For two masks of one shape (with at least one element, as line 145 demands)
  and every \<open>label_idx\<close>: when the union of the binarized masks has no true voxel
  and \<open>crop\<close> is true, \<^verbatim>\<open>get_mask_edges\<close> returns two all-false masks of the shape
  of the inputs, whatever the erosion, the bounding box and the cropping would
  compute.
\<close>

theorem empty_union_short_circuit:
  assumes "mask_shape seg_pred = mask_shape seg_gt"
      and "mask_size seg_pred \<noteq> 0"
      and "\<not> np_any (np_or (binarize seg_pred label_idx) (binarize seg_gt label_idx))"
  shows "get_mask_edges binary_erosion generate_spatial_bounding_box SpatialCrop
             seg_pred seg_gt label_idx True
           = Inr (\<lparr>shape = mask_shape seg_pred, data = replicate (mask_size seg_pred) False\<rparr>,
                  \<lparr>shape = mask_shape seg_gt, data = replicate (mask_size seg_gt) False\<rparr>)"
  using assms
  by (simp add: get_mask_edges_def Let_def zeros_like_def shape_binarize mask_size_def)

theorem empty_union_short_circuit_witness:
  "mask_shape (LabelMask \<lparr>shape = [3], data = [0, 1, 0]\<rparr>)
     = mask_shape (BoolMask \<lparr>shape = [3], data = [False, False, False]\<rparr>)
   \<and> mask_size (LabelMask \<lparr>shape = [3], data = [0, 1, 0]\<rparr>) \<noteq> 0
   \<and> \<not> np_any (np_or (binarize (LabelMask \<lparr>shape = [3], data = [0, 1, 0]\<rparr>) 2)
                      (binarize (BoolMask \<lparr>shape = [3], data = [False, False, False]\<rparr>) 2))
   \<and> get_mask_edges binary_erosion_1d bounding_box_1d SpatialCrop_1d
        (LabelMask \<lparr>shape = [3], data = [0, 1, 0]\<rparr>)
        (BoolMask \<lparr>shape = [3], data = [False, False, False]\<rparr>) 2 True
       = Inr (\<lparr>shape = [3], data = [False, False, False]\<rparr>,
              \<lparr>shape = [3], data = [False, False, False]\<rparr>)"
  using empty_union_short_circuit
          [of "LabelMask \<lparr>shape = [3], data = [0, 1, 0]\<rparr>"
              "BoolMask \<lparr>shape = [3], data = [False, False, False]\<rparr>" 2
              binary_erosion_1d bounding_box_1d SpatialCrop_1d]
  by (simp add: mask_size_def np_any_def np_or_def numeral_3_eq_3)

lemma xor_inside:
  "list_all2 (\<lambda>x y. x \<longrightarrow> y) es ds \<Longrightarrow> list_all2 (\<lambda>x y. x \<longrightarrow> y) (map2 (\<noteq>) es ds) ds"
  by (induction es ds rule: list_all2_induct) auto

lemma np_xor_inside:
  "inside e a \<Longrightarrow> \<exists>b. np_xor e a = Inr b \<and> inside b a"
  using xor_inside [of "data e" "data a"] by (simp add: inside_def np_xor_def)

text \<open>
  C9. For two masks of one non-empty shape and every \<open>label_idx\<close>, with \<open>crop\<close>
  false: when the erosion of each binarized mask lies inside that mask, each
  returned boundary lies inside its binarized mask.
\<close>

theorem boundaries_inside_sources:
  assumes "mask_shape seg_pred = mask_shape seg_gt"
      and "mask_size seg_pred \<noteq> 0"
      and "inside (binary_erosion (binarize seg_pred label_idx)) (binarize seg_pred label_idx)"
      and "inside (binary_erosion (binarize seg_gt label_idx)) (binarize seg_gt label_idx)"
  shows "\<exists>edges_pred edges_gt.
           get_mask_edges binary_erosion generate_spatial_bounding_box SpatialCrop
               seg_pred seg_gt label_idx False = Inr (edges_pred, edges_gt)
         \<and> inside edges_pred (binarize seg_pred label_idx)
         \<and> inside edges_gt (binarize seg_gt label_idx)"
proof -
  obtain ep where ep: "np_xor (binary_erosion (binarize seg_pred label_idx))
                              (binarize seg_pred label_idx) = Inr ep"
                      "inside ep (binarize seg_pred label_idx)"
    using np_xor_inside [OF assms(3)] by blast
  obtain eg where eg: "np_xor (binary_erosion (binarize seg_gt label_idx))
                              (binarize seg_gt label_idx) = Inr eg"
                      "inside eg (binarize seg_gt label_idx)"
    using np_xor_inside [OF assms(4)] by blast
  have "get_mask_edges binary_erosion generate_spatial_bounding_box SpatialCrop
            seg_pred seg_gt label_idx False = Inr (ep, eg)"
    using assms(1,2) ep(1) eg(1) by (simp add: get_mask_edges_def edges_of_def Let_def)
  with ep(2) eg(2) show ?thesis by blast
qed

theorem boundaries_inside_sources_witness:
  "mask_shape (BoolMask \<lparr>shape = [5], data = [False, True, True, True, False]\<rparr>)
     = mask_shape (LabelMask \<lparr>shape = [5], data = [2, 2, 2, 0, 1]\<rparr>)
   \<and> mask_size (BoolMask \<lparr>shape = [5], data = [False, True, True, True, False]\<rparr>) \<noteq> 0
   \<and> inside (binary_erosion_1d
               (binarize (BoolMask \<lparr>shape = [5], data = [False, True, True, True, False]\<rparr>) 2))
            (binarize (BoolMask \<lparr>shape = [5], data = [False, True, True, True, False]\<rparr>) 2)
   \<and> inside (binary_erosion_1d
               (binarize (LabelMask \<lparr>shape = [5], data = [2, 2, 2, 0, 1]\<rparr>) 2))
            (binarize (LabelMask \<lparr>shape = [5], data = [2, 2, 2, 0, 1]\<rparr>) 2)
   \<and> get_mask_edges binary_erosion_1d bounding_box_1d SpatialCrop_1d
        (BoolMask \<lparr>shape = [5], data = [False, True, True, True, False]\<rparr>)
        (LabelMask \<lparr>shape = [5], data = [2, 2, 2, 0, 1]\<rparr>) 2 False
       = Inr (\<lparr>shape = [5], data = [False, True, False, True, False]\<rparr>,
              \<lparr>shape = [5], data = [True, False, True, False, False]\<rparr>)
   \<and> inside \<lparr>shape = [5], data = [False, True, False, True, False]\<rparr>
            (binarize (BoolMask \<lparr>shape = [5], data = [False, True, True, True, False]\<rparr>) 2)
   \<and> inside \<lparr>shape = [5], data = [True, False, True, False, False]\<rparr>
            (binarize (LabelMask \<lparr>shape = [5], data = [2, 2, 2, 0, 1]\<rparr>) 2)"
  using boundaries_inside_sources
          [of "BoolMask \<lparr>shape = [5], data = [False, True, True, True, False]\<rparr>"
              "LabelMask \<lparr>shape = [5], data = [2, 2, 2, 0, 1]\<rparr>"
              binary_erosion_1d 2 bounding_box_1d SpatialCrop_1d]
  by (simp add: mask_size_def inside_def binary_erosion_1d_def get_mask_edges_def
      edges_of_def np_xor_def)

section \<open>Surface distance: properties\<close>

lemma chunks_replicate_1: "chunks k (Suc 0) (replicate k x) = replicate k [x]"
  by (induction k) simp_all

lemma select_replicate:
  "length ys = n \<Longrightarrow>
     map fst (filter snd (zip (replicate n v) ys)) = replicate (length (filter id ys)) v"
  by (induction ys arbitrary: n) auto

lemma length_select_replicate:
  "length ys = n \<Longrightarrow>
     length (filter snd (zip (replicate n v) ys)) = length (filter id ys)"
  using select_replicate [of ys n v, THEN arg_cong, of length] by simp

lemma concat_replicate_single: "concat (replicate k [x]) = replicate k x"
  by (induction k) simp_all

lemma bool_index_inf:
  assumes "wf m" and "shape g = shape m"
  shows "np_bool_index (inf_ones_like g) m
           = Inr \<lparr>shape = [count_true m], data = replicate (count_true m) PInf\<rparr>"
  using assms
  by (simp add: np_bool_index_def inf_ones_like_def wf_def Let_def chunks_replicate_1
      select_replicate length_select_replicate concat_replicate_single count_true_def)

lemma bool_index_not_ValueError: "np_bool_index dis m \<noteq> Inl ValueError"
  by (simp add: np_bool_index_def Let_def)

text \<open>
  C7, as stated: for every pair of boundary masks, a non-empty \<open>edges_pred\<close> and an
  \<open>edges_gt\<close> without a true voxel give one infinity per true voxel of \<open>edges_pred\<close>.
  It fails when the two masks differ in shape. On \<open>edges_pred = [T, F, T]\<close> and
  \<open>edges_gt = [F, F, F, F]\<close> line 205 builds four infinities, and the boolean index
  of line 213, a mask of three entries on an array of four, raises \<^verbatim>\<open>IndexError\<close>.
\<close>

theorem surface_distance_shape_mismatch_counterexample:
  "np_any \<lparr>shape = [3], data = [True, False, True]\<rparr>
   \<and> \<not> np_any \<lparr>shape = [4], data = [False, False, False, False]\<rparr>
   \<and> get_surface_distance distance_transform_1d distance_transform_cdt_1d
        \<lparr>shape = [3], data = [True, False, True]\<rparr>
        \<lparr>shape = [4], data = [False, False, False, False]\<rparr> 1 True ''euclidean''
       = Inl IndexError"
  by (simp add: get_surface_distance_def np_any_def inf_ones_like_def np_bool_index_def)

text \<open>
  C7, amended: when \<open>edges_pred\<close> has no true voxel the result is the empty sequence.
  When \<open>edges_pred\<close> has a true voxel and \<open>edges_gt\<close> has the shape of \<open>edges_pred\<close> and
  no true voxel, the result is a sequence of infinities, one for every true voxel
  of \<open>edges_pred\<close>.
\<close>

theorem surface_distance_of_empty_masks:
  "(\<not> np_any edges_pred \<longrightarrow>
      get_surface_distance distance_transform_edt distance_transform_cdt
          edges_pred edges_gt label_idx crop distance_metric
        = Inr \<lparr>shape = [0], data = []\<rparr>)
   \<and> (wf edges_pred \<and> shape edges_gt = shape edges_pred
        \<and> np_any edges_pred \<and> \<not> np_any edges_gt \<longrightarrow>
      get_surface_distance distance_transform_edt distance_transform_cdt
          edges_pred edges_gt label_idx crop distance_metric
        = Inr \<lparr>shape = [count_true edges_pred],
               data = replicate (count_true edges_pred) PInf\<rparr>)"
  by (simp add: get_surface_distance_def np_array_empty_def bool_index_inf)

theorem surface_distance_of_empty_masks_witness:
  "(\<not> np_any \<lparr>shape = [3], data = [False, False, False]\<rparr>
      \<and> get_surface_distance distance_transform_1d distance_transform_cdt_1d
            \<lparr>shape = [3], data = [False, False, False]\<rparr>
            \<lparr>shape = [3], data = [False, True, False]\<rparr> 1 True ''euclidean''
          = Inr \<lparr>shape = [0], data = []\<rparr>)
   \<and> (wf \<lparr>shape = [3], data = [True, False, True]\<rparr>
      \<and> shape \<lparr>shape = [3], data = [False, False, False]\<rparr>
          = shape \<lparr>shape = [3], data = [True, False, True]\<rparr>
      \<and> np_any \<lparr>shape = [3], data = [True, False, True]\<rparr>
      \<and> \<not> np_any \<lparr>shape = [3], data = [False, False, False]\<rparr>
      \<and> get_surface_distance distance_transform_1d distance_transform_cdt_1d
            \<lparr>shape = [3], data = [True, False, True]\<rparr>
            \<lparr>shape = [3], data = [False, False, False]\<rparr> 1 True ''euclidean''
          = Inr \<lparr>shape = [2], data = [PInf, PInf]\<rparr>)"
  using surface_distance_of_empty_masks
          [of "\<lparr>shape = [3], data = [False, False, False]\<rparr>"
              distance_transform_1d distance_transform_cdt_1d
              "\<lparr>shape = [3], data = [False, True, False]\<rparr>" 1 True "''euclidean''"]
        surface_distance_of_empty_masks
          [of "\<lparr>shape = [3], data = [True, False, True]\<rparr>"
              distance_transform_1d distance_transform_cdt_1d
              "\<lparr>shape = [3], data = [False, False, False]\<rparr>" 1 True "''euclidean''"]
  by (simp add: np_any_def wf_def count_true_def numeral_2_eq_2)

text \<open>
  C8, as stated: every metric string other than the three names makes
  \<^verbatim>\<open>get_surface_distance\<close> fail. It does not when \<open>edges_pred\<close> has no true voxel:
  line 202 returns the empty sequence before the string is looked at.
\<close>

theorem unsupported_metric_counterexample:
  "get_surface_distance distance_transform_1d distance_transform_cdt_1d
       \<lparr>shape = [2], data = [False, False]\<rparr> \<lparr>shape = [2], data = [True, False]\<rparr>
       0 True ''bogus''
     = Inr \<lparr>shape = [0], data = []\<rparr>"
  by (simp add: get_surface_distance_def np_any_def np_array_empty_def)

text \<open>
  C8, amended: for a metric string other than the three names,
  \<^verbatim>\<open>get_surface_distance\<close> fails with \<^verbatim>\<open>ValueError\<close> exactly when both boundary
  masks have a true voxel.
\<close>

theorem unsupported_metric_raises:
  assumes "distance_metric \<notin> {''euclidean'', ''chessboard'', ''taxicab''}"
  shows "(get_surface_distance distance_transform_edt distance_transform_cdt
              edges_pred edges_gt label_idx crop distance_metric = Inl ValueError)
           = (np_any edges_pred \<and> np_any edges_gt)"
  using assms by (simp add: get_surface_distance_def bool_index_not_ValueError)

theorem unsupported_metric_raises_witness:
  "''bogus'' \<notin> {''euclidean'', ''chessboard'', ''taxicab''}
   \<and> np_any \<lparr>shape = [2], data = [False, True]\<rparr>
   \<and> np_any \<lparr>shape = [2], data = [True, False]\<rparr>
   \<and> get_surface_distance distance_transform_1d distance_transform_cdt_1d
        \<lparr>shape = [2], data = [False, True]\<rparr> \<lparr>shape = [2], data = [True, False]\<rparr>
        0 True ''bogus''
       = Inl ValueError"
  using unsupported_metric_raises
          [of "''bogus''" distance_transform_1d distance_transform_cdt_1d
              "\<lparr>shape = [2], data = [False, True]\<rparr>" "\<lparr>shape = [2], data = [True, False]\<rparr>"
              0 True]
  by (simp add: np_any_def)

text \<open>
  C10. The result of \<^verbatim>\<open>get_surface_distance\<close> is the same for any two values of
  \<open>label_idx\<close> and of \<open>crop\<close>.
\<close>

theorem surface_distance_ignores_label_idx_and_crop:
  "get_surface_distance distance_transform_edt distance_transform_cdt
       edges_pred edges_gt label_idx crop distance_metric
     = get_surface_distance distance_transform_edt distance_transform_cdt
         edges_pred edges_gt label_idx' crop' distance_metric"
  by (simp add: get_surface_distance_def)

end
